theory Spec2Isabelle
  imports Complex_Main "HOL-Library.Word"
begin

section \<open>The Python binding of ImageBlock (src/librender/python/imageblock_v.cpp)\<close>

text \<open>
  The file under verification is the binding of the class \<open>ImageBlock\<close>: two constructors,
  two overloads of \<open>put\<close>, \<open>read\<close> and a list of accessors. The class itself
  (\<open>mitsuba/render/imageblock.h\<close> and its implementation) is not part of the sources; its
  data and the methods the binding calls are modelled from the specification, and every
  such definition says so.
\<close>

subsection \<open>Values\<close>

text \<open>
  \<open>Float\<close> is a template parameter of the binding. One lane of it is modelled: a finite
  value is an exact real (no rounding), and the three special values of IEEE 754 are kept
  apart, so that a division by zero is not silently the \<open>0\<close> of HOL.
\<close>

datatype Float = Fin real | PInf | NInf | NaN

fun is_finite :: "Float \<Rightarrow> bool" where
  "is_finite (Fin _) = True"
| "is_finite _ = False"

fun fadd :: "Float \<Rightarrow> Float \<Rightarrow> Float" where
  "fadd (Fin a) (Fin b) = Fin (a + b)"
| "fadd NaN _ = NaN"
| "fadd _ NaN = NaN"
| "fadd PInf NInf = NaN"
| "fadd NInf PInf = NaN"
| "fadd PInf _ = PInf"
| "fadd NInf _ = NInf"
| "fadd _ PInf = PInf"
| "fadd _ NInf = NInf"

text \<open>The infinity with the sign of a real; zero times infinity is not a number.\<close>

definition inf_of_sign :: "real \<Rightarrow> Float" where
  "inf_of_sign a = (if a = 0 then NaN else if 0 < a then PInf else NInf)"

fun fmul :: "Float \<Rightarrow> Float \<Rightarrow> Float" where
  "fmul (Fin a) (Fin b) = Fin (a * b)"
| "fmul NaN _ = NaN"
| "fmul _ NaN = NaN"
| "fmul (Fin a) PInf = inf_of_sign a"
| "fmul (Fin a) NInf = inf_of_sign (- a)"
| "fmul PInf (Fin b) = inf_of_sign b"
| "fmul NInf (Fin b) = inf_of_sign (- b)"
| "fmul PInf PInf = PInf"
| "fmul NInf NInf = PInf"
| "fmul PInf NInf = NInf"
| "fmul NInf PInf = NInf"

text \<open>
  Division as the hardware does it: a finite value over zero is an infinity, zero over
  zero and infinity over infinity are not numbers.
\<close>

fun fdiv :: "Float \<Rightarrow> Float \<Rightarrow> Float" where
  "fdiv (Fin a) (Fin b) = (if b = 0 then inf_of_sign a else Fin (a / b))"
| "fdiv NaN _ = NaN"
| "fdiv _ NaN = NaN"
| "fdiv (Fin a) _ = Fin 0"
| "fdiv PInf (Fin b) = (if 0 \<le> b then PInf else NInf)"
| "fdiv NInf (Fin b) = (if 0 \<le> b then NInf else PInf)"
| "fdiv _ _ = NaN"

type_synonym Point2f = "real \<times> real"
type_synonym ScalarPoint2u = "32 word \<times> 32 word"
type_synonym ScalarVector2u = "32 word \<times> 32 word"

subsection \<open>Errors\<close>

text \<open>
  \<open>runtime_error\<close> is the exception the binding throws itself (line 35);
  \<open>allocation_error\<close> is the failure the specification gives to a storage of a
  non-positive dimension.
\<close>

datatype error = runtime_error string | allocation_error

subsection \<open>The data of a block\<close>

text \<open>
  Modelled from the spec: the class \<open>ReconstructionFilter\<close> is not in the sources. The
  specification treats the filter as an opaque weighting function that exposes its
  footprint radius (an integer, used to size the border) and, for a continuous sample
  position, the integer pixels of its support with one weight each.
\<close>

record ReconstructionFilter =
  radius :: "32 word"
  weights_at :: "Point2f \<Rightarrow> ((int \<times> int) \<times> Float) list"

text \<open>
  Modelled from the spec: the tensor type \<open>TensorXf\<close> is not in the sources. The storage
  is a dense row-major array of shape rows, columns, channels.
\<close>

record TensorXf =
  shape :: "nat \<times> nat \<times> nat"
  array :: "Float list"

text \<open>
  Modelled from the spec: the class \<open>ImageBlock\<close> is declared in
  \<open>mitsuba/render/imageblock.h\<close>, which is not in the sources. The fields are the ones
  the accessors of the binding (lines 46 to 61) read. \<open>weight_sum\<close> is the per-pixel
  weight accumulator that the specification gives to the storage; it is only written when
  \<open>normalize\<close> is set.
\<close>

record ImageBlock =
  offset :: ScalarPoint2u
  size_v :: ScalarVector2u
  channel_count :: "32 word"
  border_size :: "32 word"
  rfilter :: "ReconstructionFilter option"
  normalize_v :: bool
  coalesce :: bool
  warn_negative :: bool
  warn_invalid :: bool
  tensor :: TensorXf
  weight_sum :: "Float list"

subsection \<open>Tensor storage\<close>

text \<open>
  Modelled from the spec: \<open>resize(height, width, channel_count)\<close> reallocates and fails
  with an allocation error if a dimension is not positive. A fresh storage holds zeros.
\<close>

definition resize :: "nat \<Rightarrow> nat \<Rightarrow> nat \<Rightarrow> error + TensorXf" where
  "resize rows cols channels =
     (if rows = 0 \<or> cols = 0 \<or> channels = 0 then Inl allocation_error
      else Inr \<lparr>shape = (rows, cols, channels),
                array = replicate (rows * cols * channels) (Fin 0)\<rparr>)"

text \<open>
  Modelled from the spec: \<open>clear()\<close> resets every element to zero and does not change
  the shape.
\<close>

definition clear_storage :: "TensorXf \<Rightarrow> TensorXf" where
  "clear_storage t = t\<lparr>array := map (\<lambda>_. Fin 0) (array t)\<rparr>"

text \<open>
  Modelled from the spec: the allocated extent of the storage, border included, and the
  place of a pixel (column, row) in the row-major array.
\<close>

definition rows :: "TensorXf \<Rightarrow> nat" where
  "rows t = fst (shape t)"

definition cols :: "TensorXf \<Rightarrow> nat" where
  "cols t = fst (snd (shape t))"

definition channels :: "TensorXf \<Rightarrow> nat" where
  "channels t = snd (snd (shape t))"

definition inside :: "TensorXf \<Rightarrow> int \<times> int \<Rightarrow> bool" where
  "inside t p = (0 \<le> fst p \<and> fst p < int (cols t) \<and> 0 \<le> snd p \<and> snd p < int (rows t))"

definition pixel_index :: "TensorXf \<Rightarrow> int \<times> int \<Rightarrow> nat" where
  "pixel_index t p = nat (snd p) * cols t + nat (fst p)"

text \<open>
  Modelled from the spec: \<open>accumulate(row, col, channel_values[], weight)\<close> adds
  \<open>channel_values[i] * weight\<close> to channel \<open>i\<close> of the pixel, for all channels, and adds
  \<open>weight\<close> to the weight accumulator when normalisation is enabled for the owning
  block. The loop over the channels is the recursion over the list of channel numbers.
\<close>

fun add_channels :: "Float list \<Rightarrow> nat \<Rightarrow> Float list \<Rightarrow> Float \<Rightarrow> nat list \<Rightarrow> Float list" where
  "add_channels a base vs w [] = a"
| "add_channels a base vs w (k # ks) =
     add_channels (a[base + k := fadd (a ! (base + k)) (fmul (vs ! k) w)]) base vs w ks"

definition accumulate :: "ImageBlock \<Rightarrow> int \<times> int \<Rightarrow> Float list \<Rightarrow> Float \<Rightarrow> ImageBlock" where
  "accumulate ib p vs w =
     (let t = tensor ib; i = pixel_index t p
      in ib\<lparr>tensor := t\<lparr>array := add_channels (array t) (i * channels t) vs w [0..<channels t]\<rparr>,
            weight_sum := (if normalize_v ib then (weight_sum ib)[i := fadd (weight_sum ib ! i) w]
                           else weight_sum ib)\<rparr>)"

text \<open>
  Modelled from the spec: the read of channel \<open>k\<close> of a pixel, raw or normalised. The
  normalised value is the accumulated value over the accumulated weight, and the division
  is guarded: a weight of zero gives zero.
\<close>

definition normalized :: "Float \<Rightarrow> Float \<Rightarrow> Float" where
  "normalized v w = (if w = Fin 0 then Fin 0 else fdiv v w)"

definition read_channel :: "ImageBlock \<Rightarrow> int \<times> int \<Rightarrow> nat \<Rightarrow> Float" where
  "read_channel ib p k =
     (let t = tensor ib; v = array t ! (pixel_index t p * channels t + k)
      in if normalize_v ib then normalized v (weight_sum ib ! pixel_index t p) else v)"

subsection \<open>Filter adapter\<close>

text \<open>
  Modelled from the spec: the nearest pixel of a continuous position is the pixel the
  position falls into.
\<close>

definition nearest_pixel :: "Point2f \<Rightarrow> int \<times> int" where
  "nearest_pixel p = (\<lfloor>fst p\<rfloor>, \<lfloor>snd p\<rfloor>)"

text \<open>
  Modelled from the spec: given a continuous sample position, the adapter returns the
  integer pixels within the filter's support and, for each, a scalar weight. For the
  absent filter it returns exactly one pixel (the nearest) with weight 1.
\<close>

definition footprint :: "ReconstructionFilter option \<Rightarrow> Point2f \<Rightarrow> ((int \<times> int) \<times> Float) list" where
  "footprint rf p = (case rf of None \<Rightarrow> [(nearest_pixel p, Fin 1)] | Some f \<Rightarrow> weights_at f p)"

subsection \<open>Image block\<close>

text \<open>
  Modelled from the spec: the border margin is derived from the filter's radius unless
  the border is disabled; without a filter nothing is splatted beyond the nearest pixel
  and the margin is 0.
\<close>

definition margin :: "ReconstructionFilter option \<Rightarrow> bool \<Rightarrow> 32 word" where
  "margin rf border = (case rf of None \<Rightarrow> 0 | Some f \<Rightarrow> if border then radius f else 0)"

text \<open>
  Modelled from the spec: the first constructor allocates a fresh storage of the size
  plus twice the border margin.
\<close>

definition ImageBlock_size :: "ScalarPoint2u \<Rightarrow> ScalarVector2u \<Rightarrow> 32 word \<Rightarrow> ReconstructionFilter option \<Rightarrow>
    bool \<Rightarrow> bool \<Rightarrow> bool \<Rightarrow> bool \<Rightarrow> bool \<Rightarrow> error + ImageBlock" where
  "ImageBlock_size off sz cc rf border nrm coal wneg winv =
     (let b = margin rf border;
          r = unat (snd sz) + 2 * unat b;
          c = unat (fst sz) + 2 * unat b
      in case resize r c (unat cc) of
           Inl e \<Rightarrow> Inl e
         | Inr t \<Rightarrow> Inr \<lparr>offset = off, size_v = sz, channel_count = cc, border_size = b,
                         rfilter = rf, normalize_v = nrm, coalesce = coal,
                         warn_negative = wneg, warn_invalid = winv, tensor = t,
                         weight_sum = replicate (r * c) (Fin 0)\<rparr>)"

text \<open>
  Modelled from the spec: the second constructor adopts the given tensor as storage; the
  size is the tensor's shape minus the border and the channel count is the tensor's
  channel dimension. A tensor with no interior pixel or no channel is refused like a
  storage of a non-positive dimension.
\<close>

definition ImageBlock_tensor :: "ScalarPoint2u \<Rightarrow> TensorXf \<Rightarrow> ReconstructionFilter option \<Rightarrow>
    bool \<Rightarrow> bool \<Rightarrow> bool \<Rightarrow> bool \<Rightarrow> bool \<Rightarrow> error + ImageBlock" where
  "ImageBlock_tensor off t rf border nrm coal wneg winv =
     (let b = margin rf border
      in if rows t \<le> 2 * unat b \<or> cols t \<le> 2 * unat b \<or> channels t = 0
         then Inl allocation_error
         else Inr \<lparr>offset = off,
                   size_v = (of_nat (cols t - 2 * unat b), of_nat (rows t - 2 * unat b)),
                   channel_count = of_nat (channels t), border_size = b,
                   rfilter = rf, normalize_v = nrm, coalesce = coal,
                   warn_negative = wneg, warn_invalid = winv, tensor = t,
                   weight_sum = replicate (rows t * cols t) (Fin 0)\<rparr>)"

text \<open>
  Modelled from the spec: a position is located relative to the offset, subtracting it
  and then adding the border margin.
\<close>

definition locate :: "ImageBlock \<Rightarrow> Point2f \<Rightarrow> Point2f" where
  "locate ib pos =
     (fst pos - real (unat (fst (offset ib))) + real (unat (border_size ib)),
      snd pos - real (unat (snd (offset ib))) + real (unat (border_size ib)))"

text \<open>
  Modelled from the spec: for each footprint pixel inside the allocated extent the
  channel values are accumulated with the filter's weight; a pixel outside is dropped.
\<close>

fun splat :: "ImageBlock \<Rightarrow> Float list \<Rightarrow> ((int \<times> int) \<times> Float) list \<Rightarrow> ImageBlock" where
  "splat ib vs [] = ib"
| "splat ib vs ((p, w) # fs) =
     splat (if inside (tensor ib) p then accumulate ib p vs w else ib) vs fs"

text \<open>
  Modelled from the spec: \<open>put(position, raw_channel_values[], active_mask)\<close> of the
  class, the method the lambda of line 36 calls. A sample whose mask is false is skipped
  entirely. With \<open>warn_invalid\<close> set, a contribution with a value that is not finite is
  dropped. The advisories are log output only and leave no trace in the block. The
  method is handed a pointer and reads \<open>channel_count\<close> values from it; the lambda calls
  it only with a vector of that length.
\<close>

definition ImageBlock_put :: "ImageBlock \<Rightarrow> Point2f \<Rightarrow> Float list \<Rightarrow> bool \<Rightarrow> ImageBlock" where
  "ImageBlock_put ib pos vs active =
     (if \<not> active then ib
      else if warn_invalid ib \<and> \<not> list_all is_finite vs then ib
      else splat ib vs (footprint (rfilter ib) (locate ib pos)))"

text \<open>
  Modelled from the spec: \<open>put(position, wavelengths, spectral_value, alpha, weight,
  active_mask)\<close> converts the spectral sample into the block's channels (an external step,
  the parameter \<open>to_channels\<close>), appends alpha and weight as trailing channels, and splats
  the channel vector like the raw overload.
\<close>

definition ImageBlock_put_spectral :: "('w \<Rightarrow> 's \<Rightarrow> Float list) \<Rightarrow> ImageBlock \<Rightarrow> Point2f \<Rightarrow> 'w \<Rightarrow> 's \<Rightarrow>
    Float \<Rightarrow> Float \<Rightarrow> bool \<Rightarrow> ImageBlock" where
  "ImageBlock_put_spectral to_channels ib pos wavelengths val alpha weight active =
     ImageBlock_put ib pos (to_channels wavelengths val @ [alpha, weight]) active"

text \<open>
  Modelled from the spec: a position maps entirely outside the allocated extent when no
  pixel of its footprint is inside it.
\<close>

definition maps_outside :: "ImageBlock \<Rightarrow> Point2f \<Rightarrow> bool" where
  "maps_outside ib pos =
     list_all (\<lambda>pw. \<not> inside (tensor ib) (fst pw)) (footprint (rfilter ib) (locate ib pos))"

text \<open>
  Modelled from the spec: \<open>read(position, active_mask)\<close> of the class, the method the
  lambda of line 41 calls with a pointer to its vector. It locates the nearest storage
  cell of the position and gives its channels, normalised if the block normalises; a
  masked-out read gives zeros. The specification names no failure of this method; a
  position outside the extent is read like a masked-out one. The result is the list of
  the stores the method does through the pointer: index and value.
\<close>

definition ImageBlock_read :: "ImageBlock \<Rightarrow> Point2f \<Rightarrow> bool \<Rightarrow> (nat \<times> Float) list" where
  "ImageBlock_read ib pos active =
     (let p = nearest_pixel (locate ib pos)
      in map (\<lambda>k. (k, if active \<and> inside (tensor ib) p then read_channel ib p k else Fin 0))
           [0..<unat (channel_count ib)])"

text \<open>
  Modelled from the spec: \<open>clear()\<close> zeroes the storage; offset, size, filter and flags are
  preserved.
\<close>

definition ImageBlock_clear :: "ImageBlock \<Rightarrow> ImageBlock" where
  "ImageBlock_clear ib =
     ib\<lparr>tensor := clear_storage (tensor ib), weight_sum := map (\<lambda>_. Fin 0) (weight_sum ib)\<rparr>"

text \<open>
  Modelled from the spec: the storage of a block is well formed when the array has one
  cell per pixel and channel of the shape, the channel dimension is the block's channel count and the weight
  accumulator has one cell per pixel.
\<close>

definition well_formed :: "ImageBlock \<Rightarrow> bool" where
  "well_formed ib =
     (let t = tensor ib
      in length (array t) = rows t * cols t * channels t \<and>
         channels t = unat (channel_count ib) \<and>
         length (weight_sum ib) = rows t * cols t)"

subsection \<open>The binding\<close>

text \<open>
  An argument of the Python call that has a default is an option: \<open>None\<close> when the caller
  omits it. \<open>py_arg\<close> is the value the bound function receives.
\<close>

definition py_arg :: "'a option \<Rightarrow> 'a \<Rightarrow> 'a" where
  "py_arg given dflt = (case given of None \<Rightarrow> dflt | Some v \<Rightarrow> v)"

text \<open>
  The defaults of lines 12 to 15 and 20 to 23 are the type traits \<open>std::is_scalar_v<Float>\<close>
  and \<open>ek::is_llvm_array_v<Float>\<close> of the \<open>Float\<close> type the binding is compiled for. The
  traits come from the standard library and from Enoki; they are parameters here.
\<close>

record FloatTraits =
  is_scalar_v :: bool
  is_llvm_array_v :: bool

text \<open>
  Lines 8 to 15: the constructor from offset, size and channel count. The constructor of
  the class is the parameter \<open>ctor\<close>.
\<close>

definition py_init_size :: "(ScalarPoint2u \<Rightarrow> ScalarVector2u \<Rightarrow> 32 word \<Rightarrow> 'f option \<Rightarrow>
      bool \<Rightarrow> bool \<Rightarrow> bool \<Rightarrow> bool \<Rightarrow> bool \<Rightarrow> 'r) \<Rightarrow>
    FloatTraits \<Rightarrow> ScalarPoint2u \<Rightarrow> ScalarVector2u \<Rightarrow> 32 word \<Rightarrow> 'f option option \<Rightarrow>
    bool option \<Rightarrow> bool option \<Rightarrow> bool option \<Rightarrow> bool option \<Rightarrow> bool option \<Rightarrow> 'r" where
  "py_init_size ctor tr off sz cc rf border nrm coal wneg winv =
     ctor off sz cc (py_arg rf None)
       (py_arg border (is_scalar_v tr)) (py_arg nrm False)
       (py_arg coal (is_llvm_array_v tr))
       (py_arg wneg (is_scalar_v tr))
       (py_arg winv (is_scalar_v tr))"

text \<open>Lines 16 to 23: the constructor from offset and tensor.\<close>

definition py_init_tensor :: "(ScalarPoint2u \<Rightarrow> 't \<Rightarrow> 'f option \<Rightarrow>
      bool \<Rightarrow> bool \<Rightarrow> bool \<Rightarrow> bool \<Rightarrow> bool \<Rightarrow> 'r) \<Rightarrow>
    FloatTraits \<Rightarrow> ScalarPoint2u \<Rightarrow> 't \<Rightarrow> 'f option option \<Rightarrow>
    bool option \<Rightarrow> bool option \<Rightarrow> bool option \<Rightarrow> bool option \<Rightarrow> bool option \<Rightarrow> 'r" where
  "py_init_tensor ctor tr off t rf border nrm coal wneg winv =
     ctor off t (py_arg rf None)
       (py_arg border (is_scalar_v tr)) (py_arg nrm False)
       (py_arg coal (is_llvm_array_v tr))
       (py_arg wneg (is_scalar_v tr))
       (py_arg winv (is_scalar_v tr))"

text \<open>
  Lines 25 to 30: the spectral overload of \<open>put\<close> is the method of the class itself (the
  parameter \<open>put_m\<close>), with defaults for alpha, weight and the mask.
\<close>

definition py_put_spectral :: "(ImageBlock \<Rightarrow> Point2f \<Rightarrow> 'w \<Rightarrow> 's \<Rightarrow> Float \<Rightarrow> Float \<Rightarrow> bool \<Rightarrow> ImageBlock) \<Rightarrow>
    ImageBlock \<Rightarrow> Point2f \<Rightarrow> 'w \<Rightarrow> 's \<Rightarrow> Float option \<Rightarrow> Float option \<Rightarrow> bool option \<Rightarrow> ImageBlock" where
  "py_put_spectral put_m ib pos wavelengths val alpha weight active =
     put_m ib pos wavelengths val (py_arg alpha (Fin 1)) (py_arg weight (Fin 1))
       (py_arg active True)"

text \<open>
  Lines 31 to 37: the raw overload. The lambda compares the length of the vector with the
  channel count and throws before it calls the method of the class (the parameter
  \<open>put_m\<close>). The result is the outcome of the call and the block after it.
\<close>

definition py_put :: "(ImageBlock \<Rightarrow> Point2f \<Rightarrow> Float list \<Rightarrow> bool \<Rightarrow> ImageBlock) \<Rightarrow>
    ImageBlock \<Rightarrow> Point2f \<Rightarrow> Float list \<Rightarrow> bool option \<Rightarrow> (error + unit) \<times> ImageBlock" where
  "py_put put_m ib pos vals active =
     (if length vals \<noteq> unat (channel_count ib)
      then (Inl (runtime_error ''Incompatible channel count!''), ib)
      else (Inr (), put_m ib pos vals (py_arg active True)))"

text \<open>
  Lines 38 to 43: \<open>read\<close>. The lambda makes a vector of \<open>channel_count\<close> values (zeros),
  hands the method of the class (the parameter \<open>read_m\<close>) a pointer to its data, and
  returns the vector. The method stores through the pointer: \<open>store\<close> does the
  assignments \<open>values[k] = v\<close> in their order. An assignment past the end of the vector
  is undefined in C++; here it leaves the vector as it is.
\<close>

fun store :: "Float list \<Rightarrow> (nat \<times> Float) list \<Rightarrow> Float list" where
  "store vals [] = vals"
| "store vals ((k, v) # ws) = store (vals[k := v]) ws"

definition py_read :: "(ImageBlock \<Rightarrow> Point2f \<Rightarrow> bool \<Rightarrow> (nat \<times> Float) list) \<Rightarrow>
    ImageBlock \<Rightarrow> Point2f \<Rightarrow> bool option \<Rightarrow> Float list" where
  "py_read read_m ib pos active =
     (let vals = replicate (unat (channel_count ib)) (Fin 0)
      in store vals (read_m ib pos (py_arg active True)))"

subsection \<open>Instances\<close>

text \<open>
  The traits of the kinds of \<open>Float\<close> the binding is compiled for: a scalar (\<open>float\<close>,
  \<open>double\<close>), an LLVM array, and a CUDA array, which is neither a scalar nor an LLVM
  array.
\<close>

definition scalar_variant :: FloatTraits where
  "scalar_variant = \<lparr>is_scalar_v = True, is_llvm_array_v = False\<rparr>"

definition llvm_variant :: FloatTraits where
  "llvm_variant = \<lparr>is_scalar_v = False, is_llvm_array_v = True\<rparr>"

definition cuda_variant :: FloatTraits where
  "cuda_variant = \<lparr>is_scalar_v = False, is_llvm_array_v = False\<rparr>"

text \<open>
  The block of the specification's example scenario: offset (0,0), size (4,4), five
  channels, no filter, no border, the other flags at their defaults.
\<close>

definition example_block :: "FloatTraits \<Rightarrow> ImageBlock" where
  "example_block tr =
     \<lparr>offset = (0, 0), size_v = (4, 4), channel_count = 5, border_size = 0,
      rfilter = None, normalize_v = False, coalesce = is_llvm_array_v tr,
      warn_negative = is_scalar_v tr, warn_invalid = is_scalar_v tr,
      tensor = \<lparr>shape = (4, 4, 5), array = replicate 80 (Fin 0)\<rparr>,
      weight_sum = replicate 16 (Fin 0)\<rparr>"

text \<open>
  A normalising block that adopted a tensor of ones: every pixel has accumulated values
  and an accumulated weight of zero.
\<close>

definition unweighted_block :: ImageBlock where
  "unweighted_block =
     \<lparr>offset = (0, 0), size_v = (4, 4), channel_count = 5, border_size = 0,
      rfilter = None, normalize_v = True, coalesce = False,
      warn_negative = True, warn_invalid = True,
      tensor = \<lparr>shape = (4, 4, 5), array = replicate 80 (Fin 1)\<rparr>,
      weight_sum = replicate 16 (Fin 0)\<rparr>"

section \<open>Lemmas about the model\<close>

subsection \<open>Channel loops\<close>

lemma length_add_channels: "length (add_channels a base vs w ks) = length a"
  by (induction ks arbitrary: a) simp_all

lemma nth_add_channels:
  assumes "distinct ks" and "i < length a"
  shows "add_channels a base vs w ks ! i =
     (if i \<in> (\<lambda>k. base + k) ` set ks then fadd (a ! i) (fmul (vs ! (i - base)) w) else a ! i)"
  using assms
proof (induction ks arbitrary: a)
  case Nil
  then show ?case by simp
next
  case (Cons k ks)
  let ?a = "a[base + k := fadd (a ! (base + k)) (fmul (vs ! k) w)]"
  have len: "i < length ?a" using Cons.prems by simp
  have d: "distinct ks" and nk: "k \<notin> set ks" using Cons.prems by simp_all
  have step: "add_channels ?a base vs w ks ! i =
     (if i \<in> (\<lambda>k. base + k) ` set ks then fadd (?a ! i) (fmul (vs ! (i - base)) w) else ?a ! i)"
    by (rule Cons.IH [OF d len])
  show ?case
  proof (cases "i = base + k")
    case True
    then have "i \<notin> (\<lambda>k. base + k) ` set ks" using nk by auto
    with True step Cons.prems show ?thesis by simp
  next
    case False
    then have "?a ! i = a ! i" by simp
    moreover have "(i \<in> (\<lambda>k. base + k) ` set (k # ks)) = (i \<in> (\<lambda>k. base + k) ` set ks)"
      using False by auto
    ultimately show ?thesis using step by simp
  qed
qed

subsection \<open>Stores through the pointer\<close>

lemma length_store: "length (store vals ws) = length vals"
  by (induction ws arbitrary: vals) auto

lemma nth_store_map:
  assumes "i < length vals"
  shows "store vals (map (\<lambda>k. (k, f k)) ks) ! i = (if i \<in> set ks then f i else vals ! i)"
  using assms
proof (induction ks arbitrary: vals)
  case Nil
  then show ?case by simp
next
  case (Cons k ks)
  then show ?case by (cases "i = k") simp_all
qed

lemma store_all:
  "store (replicate n z) (map (\<lambda>k. (k, f k)) [0..<n]) = map f [0..<n]"
  by (rule nth_equalityI) (simp_all add: length_store nth_store_map)

subsection \<open>Arithmetic of values and of cells\<close>

lemma fmul_one: "fmul v (Fin 1) = v"
  by (cases v) (simp_all add: inf_of_sign_def)

lemma fadd_zero: "fadd (Fin 0) v = v"
  by (cases v) simp_all

lemma pixel_in_range:
  assumes "inside t p"
  shows "pixel_index t p < rows t * cols t"
proof -
  have r: "nat (snd p) < rows t" and c: "nat (fst p) < cols t"
    using assms by (auto simp: inside_def)
  have "nat (snd p) * cols t + nat (fst p) < nat (snd p) * cols t + cols t"
    using c by simp
  also have "\<dots> = Suc (nat (snd p)) * cols t" by simp
  also have "\<dots> \<le> rows t * cols t"
    using r by (intro mult_le_mono1) simp
  finally show ?thesis by (simp add: pixel_index_def)
qed

lemma cell_in_range:
  assumes "i < n" and "k < c"
  shows "i * c + k < n * (c::nat)"
proof -
  have "i * c + k < i * c + c" using assms by simp
  also have "\<dots> = Suc i * c" by simp
  also have "\<dots> \<le> n * c" using assms by (intro mult_le_mono1) simp
  finally show ?thesis .
qed


subsection \<open>Put and read of the class\<close>

lemma splat_outside:
  assumes "list_all (\<lambda>pw. \<not> inside (tensor ib) (fst pw)) fs"
  shows "splat ib vs fs = ib"
  using assms by (induction fs) auto

lemma put_box:
  assumes "rfilter ib = None" and "warn_invalid ib \<longrightarrow> list_all is_finite vs"
  shows "ImageBlock_put ib pos vs True =
     (if inside (tensor ib) (nearest_pixel (locate ib pos))
      then accumulate ib (nearest_pixel (locate ib pos)) vs (Fin 1) else ib)"
  using assms by (auto simp: ImageBlock_put_def footprint_def)

lemma upt_image: "(\<lambda>k. base + k) ` set [0..<c] = {base..<base + c}"
  by (auto simp: image_iff intro: le_Suc_ex)

lemma accumulate_cells:
  assumes "well_formed ib" and "inside (tensor ib) p" and "i < length (array (tensor ib))"
  shows "array (tensor (accumulate ib p vs w)) ! i =
     (if pixel_index (tensor ib) p * channels (tensor ib) \<le> i \<and>
         i < pixel_index (tensor ib) p * channels (tensor ib) + channels (tensor ib)
      then fadd (array (tensor ib) ! i)
             (fmul (vs ! (i - pixel_index (tensor ib) p * channels (tensor ib))) w)
      else array (tensor ib) ! i)"
proof -
  have "array (tensor (accumulate ib p vs w)) =
      add_channels (array (tensor ib)) (pixel_index (tensor ib) p * channels (tensor ib)) vs w
        [0..<channels (tensor ib)]"
    by (simp add: accumulate_def Let_def)
  then show ?thesis
    using assms(3) by (simp add: nth_add_channels upt_image)
qed

lemma read_eq:
  "py_read ImageBlock_read ib pos active =
     map (\<lambda>k. if py_arg active True \<and> inside (tensor ib) (nearest_pixel (locate ib pos))
               then read_channel ib (nearest_pixel (locate ib pos)) k else Fin 0)
       [0..<unat (channel_count ib)]"
  by (simp add: py_read_def ImageBlock_read_def Let_def store_all)


lemma put_outside:
  assumes "maps_outside ib pos"
  shows "ImageBlock_put ib pos vs active = ib"
  using assms by (simp add: ImageBlock_put_def maps_outside_def splat_outside)

subsection \<open>The instances\<close>

lemma well_formed_example: "well_formed (example_block tr)"
  by (simp add: well_formed_def example_block_def rows_def cols_def channels_def)

lemma init_example:
  "py_init_size ImageBlock_size tr (0, 0) (4, 4) 5 None (Some False) None None None None
     = Inr (example_block tr)"
  by (simp add: py_init_size_def py_arg_def ImageBlock_size_def margin_def resize_def
      example_block_def)

lemma locate_example: "nearest_pixel (locate (example_block tr) (2, 2)) = (2, 2)"
  by (simp add: nearest_pixel_def locate_def example_block_def)

lemma inside_example: "inside (tensor (example_block tr)) (2, 2)"
  by (simp add: inside_def example_block_def rows_def cols_def)

lemma init_unweighted:
  "py_init_tensor ImageBlock_tensor scalar_variant (0, 0)
     \<lparr>shape = (4, 4, 5), array = replicate 80 (Fin 1)\<rparr> None None (Some True) None None None
     = Inr unweighted_block"
  by (simp add: py_init_tensor_def py_arg_def ImageBlock_tensor_def margin_def rows_def
      cols_def channels_def scalar_variant_def unweighted_block_def)

subsection \<open>What put and clear leave alone\<close>

lemma locate_same:
  "offset a = offset b \<Longrightarrow> border_size a = border_size b \<Longrightarrow> locate a pos = locate b pos"
  by (simp add: locate_def)

lemma inside_same: "shape s = shape t \<Longrightarrow> inside s p = inside t p"
  by (simp add: inside_def rows_def cols_def)

lemma pixel_index_same: "shape s = shape t \<Longrightarrow> pixel_index s p = pixel_index t p"
  by (simp add: pixel_index_def cols_def)

lemma channels_same: "shape s = shape t \<Longrightarrow> channels s = channels t"
  by (simp add: channels_def)

lemma read_after_put:
  assumes "well_formed ib" and "rfilter ib = None" and "\<not> normalize_v ib"
    and "inside (tensor ib) (nearest_pixel (locate ib pos))"
    and "length vs = unat (channel_count ib)"
    and "warn_invalid ib \<longrightarrow> list_all is_finite vs"
  shows "py_read ImageBlock_read (snd (py_put ImageBlock_put ib pos vs (Some True))) pos (Some True) =
     map (\<lambda>k. fadd (array (tensor ib) !
                 (pixel_index (tensor ib) (nearest_pixel (locate ib pos)) * unat (channel_count ib) + k))
               (vs ! k))
       [0..<unat (channel_count ib)]"
proof -
  let ?p = "nearest_pixel (locate ib pos)"
  let ?ib = "accumulate ib ?p vs (Fin 1)"
  let ?c = "unat (channel_count ib)"
  have c: "channels (tensor ib) = ?c" and len: "length (array (tensor ib)) = rows (tensor ib) * cols (tensor ib) * ?c"
    using assms(1) by (simp_all add: well_formed_def Let_def)
  have put: "snd (py_put ImageBlock_put ib pos vs (Some True)) = ?ib"
    using assms by (simp add: py_put_def py_arg_def put_box)
  have same: "shape (tensor ?ib) = shape (tensor ib)" "offset ?ib = offset ib"
    "border_size ?ib = border_size ib" "channel_count ?ib = channel_count ib"
    "normalize_v ?ib = normalize_v ib"
    by (simp_all add: accumulate_def Let_def)
  have loc: "nearest_pixel (locate ?ib pos) = ?p"
    by (simp add: locate_same [OF same(2) same(3)])
  have ins: "inside (tensor ?ib) ?p"
    using assms(4) by (simp add: inside_same [OF same(1)])
  have pix: "pixel_index (tensor ?ib) ?p = pixel_index (tensor ib) ?p"
    by (rule pixel_index_same [OF same(1)])
  have ch: "channels (tensor ?ib) = ?c"
    by (simp add: channels_same [OF same(1)] c)
  have cell: "read_channel ?ib ?p k =
      fadd (array (tensor ib) ! (pixel_index (tensor ib) ?p * ?c + k)) (vs ! k)" if "k < ?c" for k
  proof -
    have "pixel_index (tensor ib) ?p * ?c + k < length (array (tensor ib))"
      using pixel_in_range [OF assms(4)] that by (simp add: len cell_in_range)
    then have "array (tensor ?ib) ! (pixel_index (tensor ib) ?p * ?c + k) =
        fadd (array (tensor ib) ! (pixel_index (tensor ib) ?p * ?c + k)) (fmul (vs ! k) (Fin 1))"
      using accumulate_cells [OF assms(1) assms(4), of "pixel_index (tensor ib) ?p * ?c + k" vs "Fin 1"] that
      by (simp add: c)
    then show ?thesis
      using assms(3) by (simp add: read_channel_def Let_def pix ch same(5) fmul_one)
  qed
  show ?thesis
    unfolding put read_eq loc by (simp add: ins py_arg_def same cell)
qed

lemma read_after_clear:
  assumes "well_formed ib" and "inside (tensor ib) (nearest_pixel (locate ib pos))"
  shows "py_read ImageBlock_read (ImageBlock_clear ib) pos active =
     replicate (unat (channel_count ib)) (Fin 0)"
proof -
  let ?p = "nearest_pixel (locate ib pos)"
  let ?ib = "ImageBlock_clear ib"
  let ?c = "unat (channel_count ib)"
  have c: "channels (tensor ib) = ?c"
    and len: "length (array (tensor ib)) = rows (tensor ib) * cols (tensor ib) * ?c"
    and wlen: "length (weight_sum ib) = rows (tensor ib) * cols (tensor ib)"
    using assms(1) by (simp_all add: well_formed_def Let_def)
  have same: "shape (tensor ?ib) = shape (tensor ib)" "offset ?ib = offset ib"
    "border_size ?ib = border_size ib" "channel_count ?ib = channel_count ib"
    by (simp_all add: ImageBlock_clear_def clear_storage_def)
  have loc: "nearest_pixel (locate ?ib pos) = ?p"
    by (simp add: locate_same [OF same(2) same(3)])
  have pix: "pixel_index (tensor ?ib) ?p = pixel_index (tensor ib) ?p"
    by (rule pixel_index_same [OF same(1)])
  have ch: "channels (tensor ?ib) = ?c"
    by (simp add: channels_same [OF same(1)] c)
  have w0: "weight_sum ?ib ! pixel_index (tensor ib) ?p = Fin 0"
    using pixel_in_range [OF assms(2)] by (simp add: ImageBlock_clear_def wlen)
  have cell: "read_channel ?ib ?p k = Fin 0" if "k < ?c" for k
  proof -
    have "pixel_index (tensor ib) ?p * ?c + k < length (array (tensor ib))"
      using pixel_in_range [OF assms(2)] that by (simp add: len cell_in_range)
    then have "array (tensor ?ib) ! (pixel_index (tensor ib) ?p * ?c + k) = Fin 0"
      by (simp add: ImageBlock_clear_def clear_storage_def)
    then show ?thesis
      by (simp add: read_channel_def Let_def pix ch w0 normalized_def)
  qed
  have "py_read ImageBlock_read ?ib pos active = map (\<lambda>k. Fin 0) [0..<?c]"
    unfolding read_eq loc by (simp add: same cell)
  then show ?thesis by (simp add: map_replicate_const)
qed

lemma accumulate_frame:
  "shape (tensor (accumulate ib p vs w)) = shape (tensor ib)"
  "offset (accumulate ib p vs w) = offset ib"
  "border_size (accumulate ib p vs w) = border_size ib"
  "channel_count (accumulate ib p vs w) = channel_count ib"
  "length (array (tensor (accumulate ib p vs w))) = length (array (tensor ib))"
  "length (weight_sum (accumulate ib p vs w)) = length (weight_sum ib)"
  by (simp_all add: accumulate_def Let_def length_add_channels)

lemma splat_frame:
  "shape (tensor (splat ib vs fs)) = shape (tensor ib) \<and>
   offset (splat ib vs fs) = offset ib \<and>
   border_size (splat ib vs fs) = border_size ib \<and>
   channel_count (splat ib vs fs) = channel_count ib \<and>
   length (array (tensor (splat ib vs fs))) = length (array (tensor ib)) \<and>
   length (weight_sum (splat ib vs fs)) = length (weight_sum ib)"
proof (induction fs arbitrary: ib)
  case Nil
  show ?case by simp
next
  case (Cons f fs)
  obtain p w where f: "f = (p, w)" by (cases f)
  show ?case
    using Cons.IH [of "if inside (tensor ib) p then accumulate ib p vs w else ib"]
    by (simp add: f accumulate_frame)
qed

lemma put_frame:
  "shape (tensor (ImageBlock_put ib pos vs active)) = shape (tensor ib)"
  "offset (ImageBlock_put ib pos vs active) = offset ib"
  "border_size (ImageBlock_put ib pos vs active) = border_size ib"
  "channel_count (ImageBlock_put ib pos vs active) = channel_count ib"
  "length (array (tensor (ImageBlock_put ib pos vs active))) = length (array (tensor ib))"
  "length (weight_sum (ImageBlock_put ib pos vs active)) = length (weight_sum ib)"
  using splat_frame [of ib vs "footprint (rfilter ib) (locate ib pos)"]
  by (simp_all add: ImageBlock_put_def)

lemma well_formed_same:
  assumes "well_formed a" and "shape (tensor b) = shape (tensor a)"
    and "channel_count b = channel_count a"
    and "length (array (tensor b)) = length (array (tensor a))"
    and "length (weight_sum b) = length (weight_sum a)"
  shows "well_formed b"
  using assms by (simp add: well_formed_def Let_def rows_def cols_def channels_def)

lemma well_formed_put: "well_formed ib \<Longrightarrow> well_formed (ImageBlock_put ib pos vs active)"
  by (erule well_formed_same) (simp_all add: put_frame)

lemma well_formed_clear: "well_formed ib \<Longrightarrow> well_formed (ImageBlock_clear ib)"
  by (erule well_formed_same) (simp_all add: ImageBlock_clear_def clear_storage_def)

lemma fdiv_zero_not_finite: "\<not> is_finite (fdiv v (Fin 0))"
  by (cases v) (simp_all add: inf_of_sign_def)


lemma well_formed_ImageBlock_size:
  assumes "ImageBlock_size off sz cc rf border nrm coal wneg winv = Inr b"
  shows "well_formed b"
  using assms
  by (auto simp: ImageBlock_size_def resize_def well_formed_def rows_def cols_def channels_def Let_def
      split: if_splits)

lemma init_rfilter_default:
  "py_init_size ctor tr off sz cc None border nrm coal wneg winv
     = py_init_size ctor tr off sz cc (Some None) border nrm coal wneg winv"
  "py_init_tensor ctor' tr off t None border nrm coal wneg winv
     = py_init_tensor ctor' tr off t (Some None) border nrm coal wneg winv"
  by (simp_all add: py_init_size_def py_init_tensor_def py_arg_def)

lemma constructed_without_filter:
  "case py_init_size ImageBlock_size tr off sz cc None border nrm coal wneg winv of
     Inl e \<Rightarrow> True | Inr b \<Rightarrow> rfilter b = None"
  "case py_init_tensor ImageBlock_tensor tr off t None border nrm coal wneg winv of
     Inl e \<Rightarrow> True | Inr b \<Rightarrow> rfilter b = None"
  by (simp_all add: py_init_size_def py_init_tensor_def py_arg_def ImageBlock_size_def
      ImageBlock_tensor_def Let_def split: sum.split)

lemma box_put_cells:
  assumes "rfilter ib = None" and "well_formed ib" and "length vals = unat (channel_count ib)"
    and "warn_invalid ib \<longrightarrow> list_all is_finite vals"
    and "i < length (array (tensor ib))"
  shows "array (tensor (snd (py_put ImageBlock_put ib pos vals (Some True)))) ! i =
     (let p = nearest_pixel (locate ib pos);
          base = pixel_index (tensor ib) p * unat (channel_count ib)
      in if inside (tensor ib) p \<and> base \<le> i \<and> i < base + unat (channel_count ib)
         then fadd (array (tensor ib) ! i) (vals ! (i - base))
         else array (tensor ib) ! i)"
proof -
  let ?p = "nearest_pixel (locate ib pos)"
  have c: "channels (tensor ib) = unat (channel_count ib)"
    using assms(2) by (simp add: well_formed_def Let_def)
  have put: "snd (py_put ImageBlock_put ib pos vals (Some True)) =
      (if inside (tensor ib) ?p then accumulate ib ?p vals (Fin 1) else ib)"
    using assms by (simp add: py_put_def py_arg_def put_box)
  show ?thesis
  proof (cases "inside (tensor ib) ?p")
    case True
    then show ?thesis
      using accumulate_cells [OF assms(2) True assms(5), of vals "Fin 1"]
      by (simp add: put c fmul_one Let_def)
  next
    case False
    then show ?thesis by (simp add: put Let_def)
  qed
qed

section \<open>Properties\<close>

subsection \<open>The raw put checks the channel count first\<close>

text \<open>
  C1: for every block and every call of the raw overload \<open>put(position, values, active)\<close>
  in which the length of \<open>values\<close> differs from the block's channel count, the call fails
  with the channel-mismatch error and the block, its storage tensor included, is left as
  it was. This holds whatever the method of the class does and whatever the mask is.
\<close>

theorem put_channel_mismatch:
  assumes "length vals \<noteq> unat (channel_count ib)"
  shows "fst (py_put put_m ib pos vals active) = Inl (runtime_error ''Incompatible channel count!'')
       \<and> snd (py_put put_m ib pos vals active) = ib
       \<and> tensor (snd (py_put put_m ib pos vals active)) = tensor ib"
  using assms by (simp add: py_put_def)

theorem put_channel_mismatch_witness:
  "length [Fin 1, Fin 1, Fin 1] \<noteq> unat (channel_count (example_block scalar_variant))
   \<and> fst (py_put ImageBlock_put (example_block scalar_variant) (2, 2) [Fin 1, Fin 1, Fin 1] (Some True))
       = Inl (runtime_error ''Incompatible channel count!'')
   \<and> snd (py_put ImageBlock_put (example_block scalar_variant) (2, 2) [Fin 1, Fin 1, Fin 1] (Some True))
       = example_block scalar_variant"
  using put_channel_mismatch [of "[Fin 1, Fin 1, Fin 1]" "example_block scalar_variant"
      ImageBlock_put "(2, 2)" "Some True"]
  by (simp add: example_block_def)

text \<open>
  C9: in a call of the raw overload with the mask false, the channel-mismatch error is
  raised exactly when the length of \<open>values\<close> differs from the channel count: the length
  is compared before the mask reaches the method of the class, whatever that method is.
\<close>

theorem mismatch_checked_before_mask:
  "(fst (py_put put_m ib pos vals (Some False)) = Inl (runtime_error ''Incompatible channel count!''))
     = (length vals \<noteq> unat (channel_count ib))"
  by (simp add: py_put_def)

theorem mismatch_checked_before_mask_witness:
  "fst (py_put ImageBlock_put (example_block scalar_variant) (2, 2) [Fin 1, Fin 1, Fin 1] (Some False))
     = Inl (runtime_error ''Incompatible channel count!'')"
  using mismatch_checked_before_mask [of ImageBlock_put "example_block scalar_variant" "(2, 2)"
      "[Fin 1, Fin 1, Fin 1]"]
  by (simp add: example_block_def)

subsection \<open>Defaults of the arguments\<close>

text \<open>
  C2, as amended: in both constructors, when the flags are omitted, the constructor of
  the class receives \<open>border\<close>, \<open>warn_negative\<close> and \<open>warn_invalid\<close> true exactly when
  \<open>Float\<close> is a scalar type (the trait \<open>is_scalar_v\<close>), \<open>coalesce\<close> true exactly when
  \<open>Float\<close> is an LLVM array (the trait \<open>is_llvm_array_v\<close>), and \<open>normalize\<close> false for
  every \<open>Float\<close>. On a parallel backend whose \<open>Float\<close> is not an LLVM array, such as
  CUDA, all five defaults are false.
\<close>

theorem constructor_flag_defaults:
  "py_init_size ctor tr off sz cc rf None None None None None =
     ctor off sz cc (py_arg rf None) (is_scalar_v tr) False (is_llvm_array_v tr)
       (is_scalar_v tr) (is_scalar_v tr)
   \<and> py_init_tensor ctor' tr off t rf None None None None None =
     ctor' off t (py_arg rf None) (is_scalar_v tr) False (is_llvm_array_v tr)
       (is_scalar_v tr) (is_scalar_v tr)"
  by (simp add: py_init_size_def py_init_tensor_def py_arg_def)

theorem constructor_flag_defaults_witness:
  "py_init_size ImageBlock_size scalar_variant (0, 0) (4, 4) 5 None None None None None None
     = ImageBlock_size (0, 0) (4, 4) 5 None True False False True True
   \<and> py_init_tensor ImageBlock_tensor llvm_variant (0, 0) (tensor unweighted_block)
       None None None None None None
     = ImageBlock_tensor (0, 0) (tensor unweighted_block) None False False True False False"
  using constructor_flag_defaults [of ImageBlock_size scalar_variant "(0, 0)" "(4, 4)" 5 None,
      THEN conjunct1]
    constructor_flag_defaults [of _ llvm_variant "(0, 0)" _ _ None ImageBlock_tensor
      "tensor unweighted_block", THEN conjunct2]
  by (simp add: scalar_variant_def llvm_variant_def py_arg_def)

text \<open>
  C2 as stated fails on the CUDA backend: it is parallel and not scalar, and both
  constructors still receive \<open>coalesce\<close> false when the flag is omitted.
\<close>

theorem coalesce_default_cuda_counterexample:
  "\<not> is_scalar_v cuda_variant
   \<and> py_init_size ImageBlock_size cuda_variant (0, 0) (4, 4) 5 None None None None None None
     = ImageBlock_size (0, 0) (4, 4) 5 None False False False False False
   \<and> py_init_tensor ImageBlock_tensor cuda_variant (0, 0) (tensor unweighted_block)
       None None None None None None
     = ImageBlock_tensor (0, 0) (tensor unweighted_block) None False False False False False"
  by (simp add: cuda_variant_def py_init_size_def py_init_tensor_def py_arg_def)

text \<open>
  C10: in the spectral \<open>put\<close>, omitting alpha is passing 1, omitting weight is passing 1
  and omitting the mask is passing true; in the raw \<open>put\<close> and in \<open>read\<close>, omitting the
  mask is passing true.
\<close>

theorem argument_defaults:
  "py_put_spectral put_s ib pos wavelengths val None weight active
     = py_put_spectral put_s ib pos wavelengths val (Some (Fin 1)) weight active
   \<and> py_put_spectral put_s ib pos wavelengths val alpha None active
     = py_put_spectral put_s ib pos wavelengths val alpha (Some (Fin 1)) active
   \<and> py_put_spectral put_s ib pos wavelengths val alpha weight None
     = py_put_spectral put_s ib pos wavelengths val alpha weight (Some True)
   \<and> py_put_spectral put_s ib pos wavelengths val None None None
     = put_s ib pos wavelengths val (Fin 1) (Fin 1) True
   \<and> py_put put_m ib pos vals None = py_put put_m ib pos vals (Some True)
   \<and> py_read read_m ib pos None = py_read read_m ib pos (Some True)"
  by (simp add: py_put_spectral_def py_put_def py_read_def py_arg_def)


subsection \<open>Reading\<close>

text \<open>
  C7: for every block, every position and every mask, \<open>read\<close> returns a vector of
  exactly \<open>channel_count\<close> values, whatever the method of the class stores through the
  pointer it is given.
\<close>

theorem read_length:
  "length (py_read read_m ib pos active) = unat (channel_count ib)"
  by (simp add: py_read_def length_store)

text \<open>
  C6: for every read of a normalising block at a pixel whose accumulated weight is zero,
  every channel returned is zero, a finite value: the division by the weight is guarded.
\<close>

theorem read_normalized_zero_weight:
  assumes "normalize_v ib"
    and "weight_sum ib ! pixel_index (tensor ib) (nearest_pixel (locate ib pos)) = Fin 0"
  shows "py_read ImageBlock_read ib pos active = replicate (unat (channel_count ib)) (Fin 0)
       \<and> list_all is_finite (py_read ImageBlock_read ib pos active)"
proof -
  have "read_channel ib (nearest_pixel (locate ib pos)) k = Fin 0" for k
    using assms by (simp add: read_channel_def Let_def normalized_def)
  then have "py_read ImageBlock_read ib pos active = map (\<lambda>k. Fin 0) [0..<unat (channel_count ib)]"
    by (simp add: read_eq)
  then have "py_read ImageBlock_read ib pos active = replicate (unat (channel_count ib)) (Fin 0)"
    by (simp add: map_replicate_const)
  then show ?thesis by (simp add: list_all_iff)
qed

theorem read_normalized_zero_weight_witness:
  "normalize_v unweighted_block
   \<and> weight_sum unweighted_block !
       pixel_index (tensor unweighted_block) (nearest_pixel (locate unweighted_block (2, 2))) = Fin 0
   \<and> py_read ImageBlock_read unweighted_block (2, 2) (Some True) = replicate 5 (Fin 0)"
proof -
  have n: "normalize_v unweighted_block"
    by (simp add: unweighted_block_def)
  have w: "weight_sum unweighted_block !
      pixel_index (tensor unweighted_block) (nearest_pixel (locate unweighted_block (2, 2))) = Fin 0"
    by (simp add: unweighted_block_def pixel_index_def cols_def nearest_pixel_def locate_def)
  have "unat (channel_count unweighted_block) = 5"
    by (simp add: unweighted_block_def)
  then show ?thesis
    using n w read_normalized_zero_weight [OF n w, of "Some True"] by simp
qed

subsection \<open>Writing\<close>

text \<open>
  C5: for every call of \<open>put\<close>, of either overload, whose mask is false, the block is
  left as it was, storage tensor included, whatever the position and the values are.
\<close>

theorem put_inactive_is_noop:
  "snd (py_put ImageBlock_put ib pos vals (Some False)) = ib
   \<and> py_put_spectral (ImageBlock_put_spectral to_channels) ib pos wavelengths val alpha weight (Some False) = ib"
  by (simp add: py_put_def py_put_spectral_def ImageBlock_put_spectral_def ImageBlock_put_def py_arg_def)

text \<open>
  C4, as amended: for every call of \<open>put\<close> whose position maps entirely outside the
  allocated extent, border included, the block is left as it was and no error is raised,
  provided that, in the raw overload, the vector has \<open>channel_count\<close> values.
\<close>

theorem put_outside_is_noop:
  assumes "maps_outside ib pos" and "length vals = unat (channel_count ib)"
  shows "py_put ImageBlock_put ib pos vals active = (Inr (), ib)
       \<and> py_put_spectral (ImageBlock_put_spectral to_channels) ib pos wavelengths val alpha weight active' = ib"
  using assms
  by (simp add: py_put_def py_put_spectral_def ImageBlock_put_spectral_def put_outside)

theorem put_outside_is_noop_witness:
  "maps_outside (example_block scalar_variant) (10, 10)
   \<and> length [Fin 1, Fin 1, Fin 1, Fin 1, Fin 1] = unat (channel_count (example_block scalar_variant))
   \<and> py_put ImageBlock_put (example_block scalar_variant) (10, 10)
        [Fin 1, Fin 1, Fin 1, Fin 1, Fin 1] (Some True) = (Inr (), example_block scalar_variant)"
proof -
  have out: "maps_outside (example_block scalar_variant) (10, 10)"
    by (simp add: maps_outside_def footprint_def nearest_pixel_def locate_def inside_def
        example_block_def rows_def cols_def)
  have len: "length [Fin 1, Fin 1, Fin 1, Fin 1, Fin 1] = unat (channel_count (example_block scalar_variant))"
    by (simp add: example_block_def)
  show ?thesis
    using out len put_outside_is_noop [OF out len, THEN conjunct1, of "Some True"] by simp
qed

text \<open>
  C4 as stated fails on the raw overload: at a position outside the extent, a vector of
  three values for a block of five channels raises the channel-mismatch error.
\<close>

theorem put_outside_mismatch_counterexample:
  "maps_outside (example_block scalar_variant) (10, 10)
   \<and> py_put ImageBlock_put (example_block scalar_variant) (10, 10) [Fin 1, Fin 1, Fin 1] (Some True)
       = (Inl (runtime_error ''Incompatible channel count!''), example_block scalar_variant)"
  by (simp add: maps_outside_def footprint_def nearest_pixel_def locate_def inside_def
      example_block_def rows_def cols_def py_put_def)

text \<open>
  C8: both constructors take the filter as absent when the argument is omitted, and the
  block they build has no filter. Without a filter the footprint of a position is its
  nearest pixel alone, with weight 1, and an active \<open>put\<close> of a vector of
  \<open>channel_count\<close> values adds the values to the channels of that pixel, if it is
  inside the extent, and leaves every other cell of the storage as it was.
\<close>

theorem absent_filter:
  assumes "rfilter ib = None" and "well_formed ib" and "length vals = unat (channel_count ib)"
    and "warn_invalid ib \<longrightarrow> list_all is_finite vals"
  shows "py_init_size ctor tr off sz cc None border nrm coal wneg winv
           = py_init_size ctor tr off sz cc (Some None) border nrm coal wneg winv
       \<and> py_init_tensor ctor' tr off t None border nrm coal wneg winv
           = py_init_tensor ctor' tr off t (Some None) border nrm coal wneg winv
       \<and> (case py_init_size ImageBlock_size tr off sz cc None border nrm coal wneg winv of
             Inl e \<Rightarrow> True | Inr b \<Rightarrow> rfilter b = None)
       \<and> (case py_init_tensor ImageBlock_tensor tr off t None border nrm coal wneg winv of
             Inl e \<Rightarrow> True | Inr b \<Rightarrow> rfilter b = None)
       \<and> footprint None q = [(nearest_pixel q, Fin 1)]
       \<and> fst (py_put ImageBlock_put ib pos vals (Some True)) = Inr ()
       \<and> length (array (tensor (snd (py_put ImageBlock_put ib pos vals (Some True)))))
           = length (array (tensor ib))
       \<and> (\<forall>i < length (array (tensor ib)).
             array (tensor (snd (py_put ImageBlock_put ib pos vals (Some True)))) ! i =
               (let p = nearest_pixel (locate ib pos);
                    base = pixel_index (tensor ib) p * unat (channel_count ib)
                in if inside (tensor ib) p \<and> base \<le> i \<and> i < base + unat (channel_count ib)
                   then fadd (array (tensor ib) ! i) (vals ! (i - base))
                   else array (tensor ib) ! i))"
proof -
  have ok: "fst (py_put ImageBlock_put ib pos vals (Some True)) = Inr ()"
    using assms(3) by (simp add: py_put_def)
  have len: "length (array (tensor (snd (py_put ImageBlock_put ib pos vals (Some True)))))
      = length (array (tensor ib))"
    using assms(3) by (simp add: py_put_def put_frame)
  have box: "footprint None q = [(nearest_pixel q, Fin 1)]"
    by (simp add: footprint_def)
  have cells: "\<forall>i < length (array (tensor ib)).
      array (tensor (snd (py_put ImageBlock_put ib pos vals (Some True)))) ! i =
        (let p = nearest_pixel (locate ib pos);
             base = pixel_index (tensor ib) p * unat (channel_count ib)
         in if inside (tensor ib) p \<and> base \<le> i \<and> i < base + unat (channel_count ib)
            then fadd (array (tensor ib) ! i) (vals ! (i - base))
            else array (tensor ib) ! i)"
    using box_put_cells [OF assms] by blast
  show ?thesis
    by (intro conjI init_rfilter_default constructed_without_filter ok len box cells)
qed

theorem absent_filter_witness:
  "rfilter (example_block scalar_variant) = None
   \<and> well_formed (example_block scalar_variant)
   \<and> length [Fin 1, Fin 1, Fin 1, Fin 1, Fin 1] = unat (channel_count (example_block scalar_variant))
   \<and> list_all is_finite [Fin 1, Fin 1, Fin 1, Fin 1, Fin 1]
   \<and> array (tensor (snd (py_put ImageBlock_put (example_block scalar_variant) (2, 2)
        [Fin 1, Fin 1, Fin 1, Fin 1, Fin 1] (Some True)))) ! 50 = Fin 1
   \<and> array (tensor (snd (py_put ImageBlock_put (example_block scalar_variant) (2, 2)
        [Fin 1, Fin 1, Fin 1, Fin 1, Fin 1] (Some True)))) ! 49 = Fin 0"
proof -
  let ?b = "example_block scalar_variant"
  let ?ones = "[Fin 1, Fin 1, Fin 1, Fin 1, Fin 1]"
  have h1: "rfilter ?b = None" and h3: "length ?ones = unat (channel_count ?b)"
    and fin: "list_all is_finite ?ones"
    by (simp_all add: example_block_def)
  have h4: "warn_invalid ?b \<longrightarrow> list_all is_finite ?ones"
    using fin by simp
  note cells = absent_filter [OF h1 well_formed_example h3 h4, THEN conjunct2, THEN conjunct2,
      THEN conjunct2, THEN conjunct2, THEN conjunct2, THEN conjunct2, THEN conjunct2,
      rule_format]
  have base: "pixel_index (tensor ?b) (nearest_pixel (locate ?b (2, 2))) = 10"
    unfolding locate_example by (simp add: pixel_index_def cols_def example_block_def)
  have arr: "array (tensor ?b) = replicate 80 (Fin 0)" and cc: "unat (channel_count ?b) = 5"
    by (simp_all add: example_block_def)
  have ins: "inside (tensor ?b) (nearest_pixel (locate ?b (2, 2)))"
    by (simp add: locate_example inside_example)
  have c50: "array (tensor (snd (py_put ImageBlock_put ?b (2, 2) ?ones (Some True)))) ! 50 = Fin 1"
    using cells [of 50 "(2, 2)"] by (simp add: Let_def base ins arr cc)
  have c49: "array (tensor (snd (py_put ImageBlock_put ?b (2, 2) ?ones (Some True)))) ! 49 = Fin 0"
    using cells [of 49 "(2, 2)"] by (simp add: Let_def base ins arr cc)
  show ?thesis
    using h1 well_formed_example [of scalar_variant] h3 fin c50 c49 by simp
qed

subsection \<open>The example scenario\<close>

text \<open>
  C3: the block constructed with offset (0,0), size (4,4), five channels, no filter and
  the border disabled is constructed without error; after
  \<open>put((2.0, 2.0), [1,1,1,1,1], true)\<close>, which raises no error,
  \<open>read((2.0, 2.0), true)\<close> returns \<open>[1,1,1,1,1]\<close>, and after a following \<open>clear()\<close> it
  returns \<open>[0,0,0,0,0]\<close>. This holds on every backend.
\<close>

theorem example_scenario:
  "case py_init_size ImageBlock_size tr (0, 0) (4, 4) 5 None (Some False) None None None None of
     Inl e \<Rightarrow> False
   | Inr b \<Rightarrow>
       fst (py_put ImageBlock_put b (2, 2) [Fin 1, Fin 1, Fin 1, Fin 1, Fin 1] (Some True)) = Inr ()
     \<and> py_read ImageBlock_read
         (snd (py_put ImageBlock_put b (2, 2) [Fin 1, Fin 1, Fin 1, Fin 1, Fin 1] (Some True)))
         (2, 2) (Some True) = [Fin 1, Fin 1, Fin 1, Fin 1, Fin 1]
     \<and> py_read ImageBlock_read
         (ImageBlock_clear
           (snd (py_put ImageBlock_put b (2, 2) [Fin 1, Fin 1, Fin 1, Fin 1, Fin 1] (Some True))))
         (2, 2) (Some True) = [Fin 0, Fin 0, Fin 0, Fin 0, Fin 0]"
proof -
  let ?b = "example_block tr"
  let ?ones = "[Fin 1, Fin 1, Fin 1, Fin 1, Fin 1]"
  let ?b1 = "snd (py_put ImageBlock_put ?b (2, 2) ?ones (Some True))"
  have ins: "inside (tensor ?b) (nearest_pixel (locate ?b (2, 2)))"
    by (simp add: locate_example inside_example)
  have props: "rfilter ?b = None" "\<not> normalize_v ?b" "length ?ones = unat (channel_count ?b)"
    "warn_invalid ?b \<longrightarrow> list_all is_finite ?ones"
    by (simp_all add: example_block_def)
  have ok: "fst (py_put ImageBlock_put ?b (2, 2) ?ones (Some True)) = Inr ()"
    by (simp add: py_put_def example_block_def)
  have "py_read ImageBlock_read ?b1 (2, 2) (Some True) =
      map (\<lambda>k. fadd (array (tensor ?b) !
              (pixel_index (tensor ?b) (nearest_pixel (locate ?b (2, 2))) * unat (channel_count ?b) + k))
            (?ones ! k)) [0..<unat (channel_count ?b)]"
    by (rule read_after_put [OF well_formed_example props(1) props(2) ins props(3) props(4)])
  moreover have "pixel_index (tensor ?b) (nearest_pixel (locate ?b (2, 2))) = 10"
    unfolding locate_example by (simp add: pixel_index_def cols_def example_block_def)
  moreover have "unat (channel_count ?b) = 5" and "array (tensor ?b) = replicate 80 (Fin 0)"
    by (simp_all add: example_block_def)
  ultimately have "py_read ImageBlock_read ?b1 (2, 2) (Some True) =
      map (\<lambda>k. fadd (replicate 80 (Fin 0) ! (10 * 5 + k)) (?ones ! k)) [0..<5]"
    by simp
  also have "\<dots> = ?ones"
    by (simp add: eval_nat_numeral)
  finally have rd: "py_read ImageBlock_read ?b1 (2, 2) (Some True) = ?ones" .
  have b1: "?b1 = ImageBlock_put ?b (2, 2) ?ones True"
    by (simp add: py_put_def py_arg_def example_block_def)
  have wfb: "well_formed ?b1"
    unfolding b1 by (rule well_formed_put [OF well_formed_example])
  have ins1: "inside (tensor ?b1) (nearest_pixel (locate ?b1 (2, 2)))"
    unfolding b1 using ins
    by (simp add: locate_same [OF put_frame(2) put_frame(3)] inside_same [OF put_frame(1)])
  have cc1: "unat (channel_count ?b1) = 5"
    unfolding b1 by (simp add: put_frame example_block_def)
  have "py_read ImageBlock_read (ImageBlock_clear ?b1) (2, 2) (Some True) =
      replicate (unat (channel_count ?b1)) (Fin 0)"
    by (rule read_after_clear [OF wfb ins1])
  also have "\<dots> = [Fin 0, Fin 0, Fin 0, Fin 0, Fin 0]"
    unfolding cc1 by (simp add: eval_nat_numeral)
  finally have cl: "py_read ImageBlock_read (ImageBlock_clear ?b1) (2, 2) (Some True) =
      [Fin 0, Fin 0, Fin 0, Fin 0, Fin 0]" .
  show ?thesis
    using ok rd cl by (simp add: init_example)
qed



end
